theory Spec2Isabelle
  imports Complex_Main
begin

section \<open>The BIO span decoder and the sensitivity filter of \<open>src/predict.py\<close>\<close>

text \<open>
  The embedding follows \<open>bio_to_spans\<close> (lines 9-67) and the per-utterance part of
  \<open>main\<close> (lines 112-126) of \<open>src/predict.py\<close>.

  \<^item> \<open>offsets\<close> is a list of integer pairs, \<open>label_ids\<close> a list of integers,
    \<open>logits\<close> either \<open>None\<close> or a list of score rows.
  \<^item> Confidences are Python floats; they are modelled as real numbers (no rounding, no
    NaN). The decoder only compares them and takes minima, the softmax is the
    mathematical one.
  \<^item> The confidence threshold is any float that the command line gives (line 77): a
    number, an infinity or NaN.
  \<^item> \<open>ID2LABEL\<close> and \<open>label_is_pii\<close> are imported from a module \<open>labels\<close> whose source
    is not available. They are parameters of the model: \<open>id2label\<close> is a dictionary from
    label ids to label strings, \<open>label_is_pii\<close> a predicate on entity types.
  \<^item> Every exception the code can raise is a value \<open>Inl e\<close> of the result.
\<close>

subsection \<open>Python values and library functions\<close>

datatype error = IndexError | ValueError | TypeError

text \<open>A span tuple \<open>(current_start, current_end, current_label, current_confidence)\<close>.
  The start and the end are copies of variables that are initialised with \<open>None\<close>.\<close>

type_synonym span = "int option \<times> int option \<times> string \<times> real"

text \<open>A float that is not known to be a number: \<open>float\<close> parses \<open>inf\<close>, \<open>-inf\<close> and
  \<open>nan\<close> as well.\<close>

datatype py_float = Num real | PosInf | NegInf | NaN

text \<open>\<open>x < y\<close> for a number \<open>x\<close> and a float \<open>y\<close>: a comparison with NaN is false.\<close>

fun py_lt :: "real \<Rightarrow> py_float \<Rightarrow> bool" where
  "py_lt x (Num y) = (x < y)"
| "py_lt x PosInf = True"
| "py_lt x NegInf = False"
| "py_lt x NaN = False"

text \<open>\<open>label.split("-", 1)\<close>: at most one split, at the first dash.\<close>

definition py_split1 :: "string \<Rightarrow> string list" where
  "py_split1 label =
     (if CHR ''-'' \<in> set label
      then [takeWhile (\<lambda>c. c \<noteq> CHR ''-'') label, tl (dropWhile (\<lambda>c. c \<noteq> CHR ''-'') label)]
      else [label])"

text \<open>\<open>torch.softmax(row, dim=-1)\<close> on one row of scores.\<close>

definition softmax :: "real list \<Rightarrow> real list" where
  "softmax row = map (\<lambda>x. exp x / (\<Sum>y\<leftarrow>row. exp y)) row"

text \<open>\<open>logits[idx]\<close> with \<open>idx\<close> from \<open>enumerate\<close>, so never negative.\<close>

definition row_at :: "real list list \<Rightarrow> nat \<Rightarrow> error + real list" where
  "row_at rows idx = (if idx < length rows then Inr (rows ! idx) else Inl IndexError)"

text \<open>\<open>probs[int(lid)]\<close>: a negative index counts from the end of the row.\<close>

definition item_at :: "real list \<Rightarrow> int \<Rightarrow> error + real" where
  "item_at probs lid =
     (let n = int (length probs); j = (if lid < 0 then n + lid else lid)
      in if 0 \<le> j \<and> j < n then Inr (probs ! nat j) else Inl IndexError)"

text \<open>\<open>ID2LABEL.get(int(lid), "O")\<close>.\<close>

definition get_label :: "(int \<rightharpoonup> string) \<Rightarrow> int \<Rightarrow> string" where
  "get_label id2label lid = (case id2label lid of Some l \<Rightarrow> l | None \<Rightarrow> ''O'')"

subsection \<open>\<open>bio_to_spans\<close>\<close>

record decoder_state =
  spans :: "span list"
  current_label :: "string option"
  current_start :: "int option"
  current_end :: "int option"
  current_confidence :: real

text \<open>Lines 20-24.\<close>

definition init_state :: decoder_state where
  "init_state = \<lparr>spans = [], current_label = None, current_start = None,
                 current_end = None, current_confidence = 1\<rparr>"

text \<open>\<open>if current_label is not None: spans.append((current_start, current_end,
  current_label, current_confidence))\<close> (lines 39-40, 46-47, 57-58, 64-65).\<close>

definition append_current :: "decoder_state \<Rightarrow> decoder_state" where
  "append_current st =
     (case current_label st of
        None \<Rightarrow> st
      | Some l \<Rightarrow> st\<lparr>spans := spans st @ [(current_start st, current_end st, l, current_confidence st)]\<rparr>)"

text \<open>Lines 48-51 and 59-62.\<close>

definition open_span :: "string \<Rightarrow> int \<Rightarrow> int \<Rightarrow> real \<Rightarrow> decoder_state \<Rightarrow> decoder_state" where
  "open_span ent_type start end' confidence st =
     st\<lparr>current_label := Some ent_type, current_start := Some start,
        current_end := Some end', current_confidence := confidence\<rparr>"

text \<open>Lines 32-36.\<close>

definition token_confidence :: "real list list option \<Rightarrow> nat \<Rightarrow> int \<Rightarrow> error + real" where
  "token_confidence logits idx lid =
     (case logits of
        None \<Rightarrow> Inr 1
      | Some rows \<Rightarrow>
          (case row_at rows idx of
             Inl e \<Rightarrow> Inl e
           | Inr row \<Rightarrow> item_at (softmax row) lid))"

text \<open>Lines 38-62: what one token does to the state, once its label and its confidence
  are known.\<close>

definition transition :: "string \<Rightarrow> int \<Rightarrow> int \<Rightarrow> real \<Rightarrow> decoder_state \<Rightarrow> error + decoder_state" where
  "transition label start end' confidence st =
     (if label = ''O'' then
        (if current_label st \<noteq> None then Inr ((append_current st)\<lparr>current_label := None\<rparr>)
         else Inr st)
      else
        (case py_split1 label of
           [prefix, ent_type] \<Rightarrow>
             (if prefix = ''B'' then
                Inr (open_span ent_type start end' confidence (append_current st))
              else if prefix = ''I'' then
                (if current_label st = Some ent_type then
                   Inr (st\<lparr>current_end := Some end',
                           current_confidence := min (current_confidence st) confidence\<rparr>)
                 else
                   Inr (open_span ent_type start end' confidence (append_current st)))
              else Inr st)
         | _ \<Rightarrow> Inl ValueError))"

text \<open>Lines 27-62: the body of the loop for one element of
  \<open>enumerate(zip(offsets, label_ids))\<close>.\<close>

definition loop_body ::
  "(int \<rightharpoonup> string) \<Rightarrow> real list list option \<Rightarrow> nat \<times> (int \<times> int) \<times> int \<Rightarrow> decoder_state
     \<Rightarrow> error + decoder_state" where
  "loop_body id2label logits x st =
     (case x of (idx, (start, end'), lid) \<Rightarrow>
        if start = 0 \<and> end' = 0 then Inr st
        else
          (let label = get_label id2label lid in
           case token_confidence logits idx lid of
             Inl e \<Rightarrow> Inl e
           | Inr confidence \<Rightarrow> transition label start end' confidence st))"

text \<open>Line 26: the loop, stopped by the first exception.\<close>

fun run_loop ::
  "(int \<rightharpoonup> string) \<Rightarrow> real list list option \<Rightarrow> (nat \<times> (int \<times> int) \<times> int) list \<Rightarrow> decoder_state
     \<Rightarrow> error + decoder_state" where
  "run_loop id2label logits [] st = Inr st"
| "run_loop id2label logits (x # xs) st =
     (case loop_body id2label logits x st of
        Inl e \<Rightarrow> Inl e
      | Inr st' \<Rightarrow> run_loop id2label logits xs st')"

text \<open>Lines 9-67. The arguments \<open>text\<close> and \<open>confidence_threshold\<close> are not read.\<close>

definition bio_to_spans ::
  "(int \<rightharpoonup> string) \<Rightarrow> string \<Rightarrow> (int \<times> int) list \<Rightarrow> int list \<Rightarrow> real list list option
     \<Rightarrow> py_float \<Rightarrow> error + span list" where
  "bio_to_spans id2label text offsets label_ids logits confidence_threshold =
     (case run_loop id2label logits (enumerate 0 (zip offsets label_ids)) init_state of
        Inl e \<Rightarrow> Inl e
      | Inr st \<Rightarrow> Inr (spans (append_current st)))"

subsection \<open>The filter of \<open>main\<close>\<close>

record ent =
  ent_start :: int
  ent_end :: int
  ent_label :: string
  ent_pii :: bool

text \<open>\<open>int(s)\<close> on a value that is an integer or \<open>None\<close>.\<close>

definition py_int :: "int option \<Rightarrow> error + int" where
  "py_int v = (case v of None \<Rightarrow> Inl TypeError | Some i \<Rightarrow> Inr i)"

text \<open>Lines 113-125: the loop over the spans, \<open>ents\<close> being the list built so far.\<close>

fun filter_loop ::
  "(string \<Rightarrow> bool) \<Rightarrow> py_float \<Rightarrow> span list \<Rightarrow> ent list \<Rightarrow> error + ent list" where
  "filter_loop label_is_pii threshold [] ents = Inr ents"
| "filter_loop label_is_pii threshold ((s, e, lab, conf) # rest) ents =
     (if label_is_pii lab \<and> py_lt conf threshold then filter_loop label_is_pii threshold rest ents
      else
        (case py_int s of
           Inl err \<Rightarrow> Inl err
         | Inr s' \<Rightarrow>
             (case py_int e of
                Inl err \<Rightarrow> Inl err
              | Inr e' \<Rightarrow>
                  filter_loop label_is_pii threshold rest
                    (ents @ [\<lparr>ent_start = s', ent_end = e', ent_label = lab,
                              ent_pii = label_is_pii lab\<rparr>]))))"

text \<open>Lines 112-126: the entities of one utterance. The label ids that the model
  predicts (line 110) are an argument.\<close>

definition predict_ents ::
  "(int \<rightharpoonup> string) \<Rightarrow> (string \<Rightarrow> bool) \<Rightarrow> string \<Rightarrow> (int \<times> int) list \<Rightarrow> int list
     \<Rightarrow> real list list \<Rightarrow> py_float \<Rightarrow> error + ent list" where
  "predict_ents id2label label_is_pii text offsets pred_ids logits confidence_threshold =
     (case bio_to_spans id2label text offsets pred_ids (Some logits) confidence_threshold of
        Inl e \<Rightarrow> Inl e
      | Inr spans' \<Rightarrow> filter_loop label_is_pii confidence_threshold spans' [])"

subsection \<open>Tokens and the constituents of a span\<close>

text \<open>The specification describes the decoder as a machine that consumes the triples
  (offset pair, label, confidence) of the tokens that are no structural markers. The
  next definitions follow that description; they are compared with the code below.

  \<open>resolve_tokens\<close> is the list of these triples (with the label first) for an
  enumerated input: structural markers are left out, the label comes from the registry
  and the confidence from the scores.\<close>

type_synonym tok = "int \<times> int \<times> real"

fun resolve_tokens ::
  "(int \<rightharpoonup> string) \<Rightarrow> real list list option \<Rightarrow> (nat \<times> (int \<times> int) \<times> int) list
     \<Rightarrow> error + (string \<times> tok) list" where
  "resolve_tokens id2label logits [] = Inr []"
| "resolve_tokens id2label logits ((idx, (start, end'), lid) # xs) =
     (if start = 0 \<and> end' = 0 then resolve_tokens id2label logits xs
      else
        (case token_confidence logits idx lid of
           Inl e \<Rightarrow> Inl e
         | Inr confidence \<Rightarrow>
             (case resolve_tokens id2label logits xs of
                Inl e \<Rightarrow> Inl e
              | Inr ts \<Rightarrow> Inr ((get_label id2label lid, start, end', confidence) # ts))))"

text \<open>A group is an entity type, the token that opened the span and the tokens that
  extended it, in order: the constituent tokens of one span.\<close>

type_synonym group = "string \<times> tok \<times> tok list"

definition flush_group :: "group option \<Rightarrow> group list" where
  "flush_group cur = (case cur of None \<Rightarrow> [] | Some g \<Rightarrow> [g])"

text \<open>One token: the groups that are closed by it and the group that is open after it.
  \<open>O\<close> closes the open group, \<open>B-X\<close> closes it and opens a group with this token,
  \<open>I-X\<close> joins an open group of type \<open>X\<close> and otherwise does what \<open>B-X\<close> does. A label
  with another prefix leaves the open group as it is.\<close>

definition group_step :: "group option \<Rightarrow> string \<times> tok \<Rightarrow> group list \<times> group option" where
  "group_step cur lt =
     (case lt of (label, t) \<Rightarrow>
        if label = ''O'' then (flush_group cur, None)
        else
          (case py_split1 label of
             [prefix, ent_type] \<Rightarrow>
               (if prefix = ''B'' then (flush_group cur, Some (ent_type, t, []))
                else if prefix = ''I'' then
                  (case cur of
                     Some (open_type, t0, ts) \<Rightarrow>
                       if open_type = ent_type then ([], Some (open_type, t0, ts @ [t]))
                       else ([(open_type, t0, ts)], Some (ent_type, t, []))
                   | None \<Rightarrow> ([], Some (ent_type, t, [])))
                else ([], cur))
           | _ \<Rightarrow> ([], cur)))"

fun constituents :: "group option \<Rightarrow> (string \<times> tok) list \<Rightarrow> group list" where
  "constituents cur [] = flush_group cur"
| "constituents cur (lt # rest) =
     (case group_step cur lt of (emitted, cur') \<Rightarrow> emitted @ constituents cur' rest)"

fun group_tokens :: "group \<Rightarrow> tok list" where
  "group_tokens (ent_type, t0, ts) = t0 # ts"

text \<open>The minimum of the confidences of a list of tokens.\<close>

definition min_conf :: "tok list \<Rightarrow> real" where
  "min_conf ts = Min (set (map (\<lambda>(s, e, c). c) ts))"

text \<open>The span that the specification assigns to a group: from the start of its first
  token to the end of its last token, with the minimum of the confidences.\<close>

fun span_of_group :: "group \<Rightarrow> span" where
  "span_of_group (ent_type, (s, e, c), ts) =
     (Some s, Some (fst (snd (last ((s, e, c) # ts)))), ent_type, min_conf ((s, e, c) # ts))"

text \<open>The state of the code that corresponds to an open group.\<close>

fun tracks :: "group option \<Rightarrow> decoder_state \<Rightarrow> bool" where
  "tracks None st = (current_label st = None)"
| "tracks (Some g) st =
     (current_label st = Some (fst g) \<and>
      (current_start st, current_end st, fst g, current_confidence st) = span_of_group g)"

subsection \<open>Well-formed spans\<close>

definition span_wf :: "span \<Rightarrow> bool" where
  "span_wf sp = (case sp of (Some s, Some e, lab, conf) \<Rightarrow> s < e | _ \<Rightarrow> False)"

text \<open>\<open>a\<close> starts before \<open>b\<close> and ends where \<open>b\<close> starts, or earlier.\<close>

definition span_precedes :: "span \<Rightarrow> span \<Rightarrow> bool" where
  "span_precedes a b =
     (case (a, b) of
        ((Some s, Some e, lab, conf), (Some s', Some e', lab', conf')) \<Rightarrow> s < s' \<and> e \<le> s'
      | _ \<Rightarrow> False)"

subsection \<open>Ordered tokens\<close>

text \<open>A token with \<open>start < end\<close>; a token that ends where another starts, or earlier.\<close>

definition tok_wf :: "tok \<Rightarrow> bool" where
  "tok_wf t = (case t of (s, e, c) \<Rightarrow> s < e)"

definition tok_before :: "tok \<Rightarrow> tok \<Rightarrow> bool" where
  "tok_before t t' = (case (t, t') of ((s, e, c), (s', e', c')) \<Rightarrow> e \<le> s')"

text \<open>The labels of the tokens that open or extend a span.\<close>

definition entity_label :: "string \<Rightarrow> bool" where
  "entity_label label =
     (label \<noteq> ''O'' \<and>
      (case py_split1 label of [prefix, X] \<Rightarrow> prefix = ''B'' \<or> prefix = ''I'' | _ \<Rightarrow> False))"

definition open_tokens :: "group option \<Rightarrow> tok list" where
  "open_tokens cur = concat (map group_tokens (flush_group cur))"

subsection \<open>A label registry for the examples\<close>

text \<open>Modelled from the spec: the label registry of the module \<open>labels\<close>, whose source
  is missing. The specification names the entity types and says which of them are
  sensitive (name, phone, email, credit card) and which are not (city, location, date);
  the numbering of the label ids is chosen here, and ids 15 and 16 carry malformed
  labels, which a registry can hold. The registry is used in examples only.\<close>

definition demo_id2label :: "int \<rightharpoonup> string" where
  "demo_id2label =
     [0 \<mapsto> ''O'',
      1 \<mapsto> ''B-PERSON_NAME'', 2 \<mapsto> ''I-PERSON_NAME'',
      3 \<mapsto> ''B-CITY'', 4 \<mapsto> ''I-CITY'',
      5 \<mapsto> ''B-EMAIL'', 6 \<mapsto> ''I-EMAIL'',
      7 \<mapsto> ''B-PHONE'', 8 \<mapsto> ''I-PHONE'',
      15 \<mapsto> ''PHONE'', 16 \<mapsto> ''X-CITY'']"

text \<open>Modelled from the spec: \<open>label_is_pii\<close> of the same module, with the sensitive
  entity types that the specification lists.\<close>

definition demo_is_pii :: "string \<Rightarrow> bool" where
  "demo_is_pii lab = (lab \<in> {''PERSON_NAME'', ''PHONE'', ''EMAIL'', ''CREDIT_CARD''})"

section \<open>Evaluation and helper lemmas\<close>

lemmas eval_defs =
  bio_to_spans_def init_state_def loop_body_def get_label_def token_confidence_def
  transition_def py_split1_def append_current_def open_span_def row_at_def item_at_def
  softmax_def demo_id2label_def

lemma py_split1_prefix:
  "CHR ''-'' \<notin> set p \<Longrightarrow> py_split1 (p @ CHR ''-'' # X) = [p, X]"
  by (simp add: py_split1_def takeWhile_append dropWhile_append)

lemma py_split1_B: "py_split1 (''B-'' @ X) = [''B'', X]"
  using py_split1_prefix [of "''B''" X] by simp

lemma py_split1_I: "py_split1 (''I-'' @ X) = [''I'', X]"
  using py_split1_prefix [of "''I''" X] by simp

lemma py_split1_no_dash: "CHR ''-'' \<notin> set label \<Longrightarrow> py_split1 label = [label]"
  by (simp add: py_split1_def)

lemma py_split1_length: "length (py_split1 label) \<le> 2"
  by (simp add: py_split1_def)

lemma append_current_fields [simp]:
  "current_label (append_current st) = current_label st"
  "current_start (append_current st) = current_start st"
  "current_end (append_current st) = current_end st"
  "current_confidence (append_current st) = current_confidence st"
  by (simp_all add: append_current_def split: option.split)

lemma run_loop_append:
  "run_loop id2label logits (xs @ ys) st =
     (case run_loop id2label logits xs st of
        Inl e \<Rightarrow> Inl e
      | Inr st' \<Rightarrow> run_loop id2label logits ys st')"
  by (induction xs arbitrary: st) (auto split: sum.splits)

section \<open>Properties\<close>

text \<open>C10: the span list returned by \<open>bio_to_spans\<close> depends on the offsets, the label
  ids and the scores only: two calls that differ in the text and in the confidence
  threshold return the same result.\<close>

theorem bio_to_spans_ignores_text_and_threshold:
  "bio_to_spans id2label text1 offsets label_ids logits t1 =
   bio_to_spans id2label text2 offsets label_ids logits t2"
  by (simp add: bio_to_spans_def)

text \<open>C9, as the code has it: a token whose offset pair is \<open>(0, 0)\<close>, a structural
  marker, is skipped with the state unchanged, whatever its label id and the scores
  are: it starts no span, extends none and closes none, and the decoder gives the same
  result as on the input without this token (at the same positions of the other
  tokens).\<close>

theorem marker_token_skipped:
  "loop_body id2label logits (idx, (0, 0), lid) st = Inr st
   \<and> run_loop id2label logits (xs @ (idx, (0, 0), lid) # ys) st0
       = run_loop id2label logits (xs @ ys) st0"
  by (simp add: loop_body_def run_loop_append split: sum.split)

text \<open>The claim C9 fails for a zero-length pair other than \<open>(0, 0)\<close>, which line 27 does
  not skip: such a token starts a span, extends an open span, and with the label \<open>O\<close>
  closes an open span (the last result is the one without the \<open>O\<close> token).\<close>

theorem zero_length_token_counterexample:
  "bio_to_spans demo_id2label ''pune'' [(5, 5)] [3] None (Num (1/2))
     = Inr [(Some 5, Some 5, ''CITY'', 1)]
   \<and> bio_to_spans demo_id2label ''new york'' [(0, 3), (7, 7)] [3, 4] None (Num (1/2))
       = Inr [(Some 0, Some 7, ''CITY'', 1)]
   \<and> bio_to_spans demo_id2label ''new york'' [(0, 3), (3, 3), (4, 8)] [3, 0, 4] None (Num (1/2))
       = Inr [(Some 0, Some 3, ''CITY'', 1), (Some 4, Some 8, ''CITY'', 1)]
   \<and> bio_to_spans demo_id2label ''new york'' [(0, 3), (4, 8)] [3, 4] None (Num (1/2))
       = Inr [(Some 0, Some 8, ''CITY'', 1)]"
  by (simp add: eval_defs)

text \<open>C6: an \<open>I-X\<close> token that arrives when no span is open, or when the open span has
  another type, appends the open span (if there is one) to the spans and opens a span
  of type \<open>X\<close> that starts and ends at the offsets of this token and has the confidence
  of this token; a \<open>B-X\<close> token at its place gives the same state.\<close>

theorem orphan_inside_opens_span:
  assumes "current_label st \<noteq> Some X"
  shows "transition (''I-'' @ X) start end' c st
           = Inr \<lparr>spans =
                    (case current_label st of
                       None \<Rightarrow> spans st
                     | Some l \<Rightarrow>
                         spans st @ [(current_start st, current_end st, l, current_confidence st)]),
                  current_label = Some X, current_start = Some start,
                  current_end = Some end', current_confidence = c\<rparr>
       \<and> transition (''B-'' @ X) start end' c st = transition (''I-'' @ X) start end' c st"
  using assms
  by (cases st)
     (simp add: transition_def py_split1_B py_split1_I open_span_def append_current_def
        split: option.split del: append.simps)

theorem orphan_inside_opens_span_witness:
  "current_label init_state \<noteq> Some ''EMAIL''
   \<and> transition ''I-EMAIL'' 3 8 (1/2) init_state
       = Inr \<lparr>spans = [], current_label = Some ''EMAIL'', current_start = Some 3,
              current_end = Some 8, current_confidence = 1/2\<rparr>
   \<and> current_label \<lparr>spans = [], current_label = Some ''CITY'', current_start = Some 0,
         current_end = Some 4, current_confidence = 9/10\<rparr> \<noteq> Some ''EMAIL''
   \<and> transition ''I-EMAIL'' 5 9 (4/5)
        \<lparr>spans = [], current_label = Some ''CITY'', current_start = Some 0,
          current_end = Some 4, current_confidence = 9/10\<rparr>
       = Inr \<lparr>spans = [(Some 0, Some 4, ''CITY'', 9/10)], current_label = Some ''EMAIL'',
              current_start = Some 5, current_end = Some 9, current_confidence = 4/5\<rparr>
   \<and> transition ''B-EMAIL'' 5 9 (4/5)
        \<lparr>spans = [], current_label = Some ''CITY'', current_start = Some 0,
          current_end = Some 4, current_confidence = 9/10\<rparr>
       = Inr \<lparr>spans = [(Some 0, Some 4, ''CITY'', 9/10)], current_label = Some ''EMAIL'',
              current_start = Some 5, current_end = Some 9, current_confidence = 4/5\<rparr>
   \<and> bio_to_spans demo_id2label ''a@b.c'' [(3, 8)] [6] None (Num (1/2))
       = Inr [(Some 3, Some 8, ''EMAIL'', 1)]
   \<and> bio_to_spans demo_id2label ''pune a@b.c'' [(0, 4), (5, 9)] [3, 6]
        (Some [[0, 0, 0, ln 27], [0, 0, 0, 0, 0, 0, ln 24]]) (Num (1/2))
       = Inr [(Some 0, Some 4, ''CITY'', 9/10), (Some 5, Some 9, ''EMAIL'', 4/5)]"
proof -
  let ?city = "\<lparr>spans = [], current_label = Some ''CITY'', current_start = Some 0,
                 current_end = Some 4, current_confidence = 9/10\<rparr>"
  have h1: "current_label init_state \<noteq> Some ''EMAIL''"
    by (simp add: init_state_def)
  have h2: "current_label ?city \<noteq> Some ''EMAIL''"
    by simp
  have e: "bio_to_spans demo_id2label ''a@b.c'' [(3, 8)] [6] None (Num (1/2))
             = Inr [(Some 3, Some 8, ''EMAIL'', 1)]"
    by (simp add: eval_defs)
  have f: "bio_to_spans demo_id2label ''pune a@b.c'' [(0, 4), (5, 9)] [3, 6]
        (Some [[0, 0, 0, ln 27], [0, 0, 0, 0, 0, 0, ln 24]]) (Num (1/2))
       = Inr [(Some 0, Some 4, ''CITY'', 9/10), (Some 5, Some 9, ''EMAIL'', 4/5)]"
    by (simp add: eval_defs)
  show ?thesis
    using h1 h2 e f orphan_inside_opens_span [OF h1, of 3 8 "1/2"]
      orphan_inside_opens_span [OF h2, of 5 9 "4/5"]
    by (simp add: init_state_def)
qed

text \<open>C2, as the code has it: when the loop reaches a token (the tokens before it raise
  no exception) that is no structural marker \<open>(0, 0)\<close> and whose confidence is computed
  without an \<open>IndexError\<close>, a label other than \<open>O\<close> that has no dash
  makes \<open>bio_to_spans\<close> raise \<open>ValueError\<close>; a label with a dash whose prefix is neither
  \<open>B\<close> nor \<open>I\<close> leaves the state as it is (an open span stays open), and the decoder
  goes on with the tokens that follow.\<close>

theorem malformed_label:
  assumes "enumerate 0 (zip offsets label_ids) = pre @ (idx, (start, end'), lid) # post"
      and "run_loop id2label logits pre init_state = Inr st"
      and "\<not> (start = 0 \<and> end' = 0)"
      and "token_confidence logits idx lid = Inr c"
  shows "(get_label id2label lid \<noteq> ''O'' \<and> CHR ''-'' \<notin> set (get_label id2label lid)
            \<longrightarrow> bio_to_spans id2label text offsets label_ids logits t = Inl ValueError)
       \<and> (get_label id2label lid = p @ ''-'' @ X \<and> CHR ''-'' \<notin> set p \<and> p \<noteq> ''B'' \<and> p \<noteq> ''I''
            \<longrightarrow> loop_body id2label logits (idx, (start, end'), lid) st = Inr st
              \<and> bio_to_spans id2label text offsets label_ids logits t
                  = (case run_loop id2label logits post st of
                       Inl e \<Rightarrow> Inl e
                     | Inr st' \<Rightarrow> Inr (spans (append_current st'))))"
proof (intro conjI impI)
  assume a: "get_label id2label lid \<noteq> ''O'' \<and> CHR ''-'' \<notin> set (get_label id2label lid)"
  then have "transition (get_label id2label lid) start end' c st = Inl ValueError"
    by (simp add: transition_def py_split1_no_dash)
  with assms show "bio_to_spans id2label text offsets label_ids logits t = Inl ValueError"
    by (auto simp: bio_to_spans_def run_loop_append loop_body_def)
next
  assume a: "get_label id2label lid = p @ ''-'' @ X \<and> CHR ''-'' \<notin> set p \<and> p \<noteq> ''B'' \<and> p \<noteq> ''I''"
  have "p @ ''-'' @ X \<noteq> ''O''"
    by (cases p) auto
  with a have "transition (get_label id2label lid) start end' c st = Inr st"
    using py_split1_prefix [of p X] by (simp add: transition_def)
  with assms show b: "loop_body id2label logits (idx, (start, end'), lid) st = Inr st"
    by (auto simp: loop_body_def)
  with assms show "bio_to_spans id2label text offsets label_ids logits t
                  = (case run_loop id2label logits post st of
                       Inl e \<Rightarrow> Inl e
                     | Inr st' \<Rightarrow> Inr (spans (append_current st')))"
    by (simp add: bio_to_spans_def run_loop_append)
qed

theorem malformed_label_witness:
  "enumerate 0 (zip [(0, 3), (4, 8), (9, 11)] [3, 16, 4]) = [(0, (0, 3), 3)] @ (1, (4, 8), 16) # [(2, (9, 11), 4)]
   \<and> run_loop demo_id2label None [(0, (0, 3), 3)] init_state = Inr (open_span ''CITY'' 0 3 1 init_state)
   \<and> \<not> ((4 :: int) = 0 \<and> (8 :: int) = 0)
   \<and> token_confidence None 1 16 = Inr 1
   \<and> get_label demo_id2label 16 = ''X'' @ ''-'' @ ''CITY''
   \<and> loop_body demo_id2label None (1, (4, 8), 16) (open_span ''CITY'' 0 3 1 init_state)
       = Inr (open_span ''CITY'' 0 3 1 init_state)
   \<and> bio_to_spans demo_id2label ''new york ny'' [(0, 3), (4, 8), (9, 11)] [3, 16, 4] None (Num (1/2))
       = Inr [(Some 0, Some 11, ''CITY'', 1)]
   \<and> enumerate 0 (zip [(0, 3), (4, 8), (9, 11)] [3, 15, 4]) = [(0, (0, 3), 3)] @ (1, (4, 8), 15) # [(2, (9, 11), 4)]
   \<and> token_confidence None 1 15 = Inr 1
   \<and> get_label demo_id2label 15 = ''PHONE''
   \<and> bio_to_spans demo_id2label ''new york ny'' [(0, 3), (4, 8), (9, 11)] [3, 15, 4] None (Num (1/2))
       = Inl ValueError"
proof -
  have e1: "enumerate 0 (zip [(0, 3), (4, 8), (9, 11)] [3, 16, 4])
              = [(0, (0, 3), 3)] @ (1, (4, 8), 16) # [(2, (9, 11), 4 :: int)]"
    by simp
  have e2: "enumerate 0 (zip [(0, 3), (4, 8), (9, 11)] [3, 15, 4])
              = [(0, (0, 3), 3)] @ (1, (4, 8), 15) # [(2, (9, 11), 4 :: int)]"
    by simp
  have r: "run_loop demo_id2label None [(0, (0, 3), 3)] init_state
             = Inr (open_span ''CITY'' 0 3 1 init_state)"
    by (simp add: eval_defs)
  have n: "\<not> ((4 :: int) = 0 \<and> (8 :: int) = 0)"
    by simp
  have c1: "token_confidence None 1 16 = Inr 1" and c2: "token_confidence None 1 15 = Inr 1"
    by (simp_all add: token_confidence_def)
  note t1 = malformed_label [OF e1 r n c1, where p = "''X''" and X = "''CITY''"]
  note t2 = malformed_label [OF e2 r n c2, where p = "''X''" and X = "''CITY''"]
  show ?thesis
    using e1 e2 r c1 c2 t1 t2 by (simp add: eval_defs)
qed

text \<open>The claim C2 fails on the code: a token labelled \<open>PHONE\<close> raises \<open>ValueError\<close>, and
  a token labelled \<open>X-CITY\<close> between \<open>B-CITY\<close> and \<open>I-CITY\<close> does not close the span, as
  an \<open>O\<close> token at its place does.\<close>

theorem malformed_label_counterexample:
  "bio_to_spans demo_id2label ''call me'' [(0, 4)] [15] None (Num (1/2)) = Inl ValueError
   \<and> bio_to_spans demo_id2label ''new york ny'' [(0, 3), (4, 8), (9, 11)] [3, 16, 4] None (Num (1/2))
       = Inr [(Some 0, Some 11, ''CITY'', 1)]
   \<and> bio_to_spans demo_id2label ''new york ny'' [(0, 3), (4, 8), (9, 11)] [3, 0, 4] None (Num (1/2))
       = Inr [(Some 0, Some 3, ''CITY'', 1), (Some 9, Some 11, ''CITY'', 1)]"
  by (simp add: eval_defs)

text \<open>C7: when the loop ends with a span open, \<open>bio_to_spans\<close> appends this span to the
  spans appended so far: the open span is the last element of the result.\<close>

theorem flush_open_span:
  assumes "run_loop id2label logits (enumerate 0 (zip offsets label_ids)) init_state = Inr st"
      and "current_label st = Some l"
  shows "bio_to_spans id2label text offsets label_ids logits t
           = Inr (spans st @ [(current_start st, current_end st, l, current_confidence st)])"
  using assms by (simp add: bio_to_spans_def append_current_def)

theorem flush_open_span_witness:
  "run_loop demo_id2label None (enumerate 0 (zip [(0, 0), (0, 4), (5, 10)] [0, 1, 2])) init_state
     = Inr \<lparr>spans = [], current_label = Some ''PERSON_NAME'', current_start = Some 0,
            current_end = Some 10, current_confidence = 1\<rparr>
   \<and> bio_to_spans demo_id2label ''john smith'' [(0, 0), (0, 4), (5, 10)] [0, 1, 2] None (Num (1/2))
       = Inr [(Some 0, Some 10, ''PERSON_NAME'', 1)]"
proof -
  have h: "run_loop demo_id2label None (enumerate 0 (zip [(0, 0), (0, 4), (5, 10)] [0, 1, 2])) init_state
     = Inr \<lparr>spans = [], current_label = Some ''PERSON_NAME'', current_start = Some 0,
            current_end = Some 10, current_confidence = 1\<rparr>"
    by (simp add: eval_defs)
  show ?thesis
    using h flush_open_span [OF h, of "''PERSON_NAME''" "''john smith''" "Num (1/2)"] by simp
qed

subsection \<open>The code emits one span for each group of constituents\<close>

lemma min_conf_single: "min_conf [(s, e, c)] = c"
  by (simp add: min_conf_def)

lemma min_conf_snoc: "ts \<noteq> [] \<Longrightarrow> min_conf (ts @ [(s, e, c)]) = min (min_conf ts) c"
  by (simp add: min_conf_def Min_insert min.commute)

lemma span_of_group_single: "span_of_group (X, (s, e, c), []) = (Some s, Some e, X, c)"
  by (simp add: min_conf_single)

lemma span_of_group_snoc:
  "span_of_group (X, t0, ts) = (a, b, X', c0) \<Longrightarrow>
   span_of_group (X, t0, ts @ [(s, e, c)]) = (a, Some e, X, min c0 c)"
  using min_conf_snoc [of "t0 # ts" s e c] by (cases t0) auto

lemma tracks_append_current:
  "tracks cur st \<Longrightarrow> spans (append_current st) = spans st @ map span_of_group (flush_group cur)"
  by (cases cur) (auto simp: append_current_def flush_group_def)

lemma tracks_init: "tracks None init_state"
  by (simp add: init_state_def)

lemma transition_tracks:
  assumes "tracks cur st" and "transition label s e c st = Inr st'"
  shows "\<exists>emitted cur'. group_step cur (label, s, e, c) = (emitted, cur') \<and> tracks cur' st'
           \<and> spans st' = spans st @ map span_of_group emitted"
proof (cases "label = ''O''")
  case True
  with assms show ?thesis
    by (cases cur) (auto simp: transition_def group_step_def flush_group_def append_current_def)
next
  case False
  show ?thesis
  proof (cases "py_split1 label")
    case Nil
    with assms False show ?thesis by (simp add: transition_def)
  next
    case (Cons prefix r)
    show ?thesis
    proof (cases r)
      case Nil
      with assms False Cons show ?thesis by (simp add: transition_def)
    next
      case (Cons ent_type r')
      have "r' = []"
        using py_split1_length [of label] \<open>py_split1 label = prefix # r\<close> Cons by simp
      then have sp: "py_split1 label = [prefix, ent_type]"
        using \<open>py_split1 label = prefix # r\<close> Cons by simp
      show ?thesis
      proof (cases cur)
        case None
        with assms False sp show ?thesis
          by (auto simp: transition_def group_step_def flush_group_def open_span_def
                append_current_def min_conf_single split: if_splits)
      next
        case (Some g)
        obtain Y t0 ts where g: "g = (Y, t0, ts)"
          by (cases g) auto
        have sg: "span_of_group (Y, t0, ts)
                    = (current_start st, current_end st, Y, current_confidence st)"
          using assms(1) Some g by simp
        note sn = span_of_group_snoc [OF sg, of s e c]
        from assms False sp Some g sn show ?thesis
          by (auto simp: transition_def group_step_def flush_group_def open_span_def
                append_current_def span_of_group_single
              simp del: span_of_group.simps split: if_splits)
      qed
    qed
  qed
qed

lemma run_loop_tracks:
  assumes "tracks cur st" and "run_loop id2label logits xs st = Inr st'"
  shows "\<exists>toks. resolve_tokens id2label logits xs = Inr toks
           \<and> spans (append_current st') = spans st @ map span_of_group (constituents cur toks)"
  using assms
proof (induction xs arbitrary: cur st)
  case Nil
  then show ?case by (simp add: tracks_append_current)
next
  case (Cons x xs)
  obtain idx s e lid where x: "x = (idx, (s, e), lid)"
    by (cases x) auto
  show ?case
  proof (cases "s = 0 \<and> e = 0")
    case True
    with Cons x show ?thesis by (simp add: loop_body_def)
  next
    case False
    from Cons.prems(2) x False obtain c st1 where
      c: "token_confidence logits idx lid = Inr c" and
      t: "transition (get_label id2label lid) s e c st = Inr st1" and
      r: "run_loop id2label logits xs st1 = Inr st'"
      by (auto simp: loop_body_def split: sum.splits)
    from transition_tracks [OF Cons.prems(1) t] obtain emitted cur' where
      g: "group_step cur (get_label id2label lid, s, e, c) = (emitted, cur')" and
      tr: "tracks cur' st1" and sp: "spans st1 = spans st @ map span_of_group emitted"
      by blast
    from Cons.IH [OF tr r] obtain toks where
      "resolve_tokens id2label logits xs = Inr toks"
      "spans (append_current st') = spans st1 @ map span_of_group (constituents cur' toks)"
      by blast
    with x False c g sp show ?thesis by auto
  qed
qed

lemma bio_to_spans_groups:
  assumes "bio_to_spans id2label text offsets label_ids logits t = Inr result"
  shows "\<exists>toks. resolve_tokens id2label logits (enumerate 0 (zip offsets label_ids)) = Inr toks
           \<and> result = map span_of_group (constituents None toks)"
proof -
  from assms obtain st where
    r: "run_loop id2label logits (enumerate 0 (zip offsets label_ids)) init_state = Inr st"
    and res: "result = spans (append_current st)"
    by (auto simp: bio_to_spans_def split: sum.splits)
  from run_loop_tracks [OF tracks_init r] res show ?thesis
    by (simp add: init_state_def)
qed

text \<open>C5: when \<open>bio_to_spans\<close> returns, its result has one span for each group of
  constituent tokens (the token that opened the span and the matching \<open>I\<close> tokens that
  extended it), in order, and the confidence of the span is the minimum of the
  confidences of the tokens of its group.\<close>

theorem span_confidence_is_minimum:
  assumes "bio_to_spans id2label text offsets label_ids logits t = Inr result"
  shows "\<exists>toks. resolve_tokens id2label logits (enumerate 0 (zip offsets label_ids)) = Inr toks
           \<and> result = map span_of_group (constituents None toks)
           \<and> map (\<lambda>(s, e, lab, conf). conf) result
               = map (\<lambda>g. Min (set (map (\<lambda>(s, e, c). c) (group_tokens g)))) (constituents None toks)"
proof -
  from bio_to_spans_groups [OF assms] obtain toks where
    t: "resolve_tokens id2label logits (enumerate 0 (zip offsets label_ids)) = Inr toks" and
    r: "result = map span_of_group (constituents None toks)"
    by blast
  have "(case span_of_group g of (s, e, lab, conf) \<Rightarrow> conf)
          = Min (set (map (\<lambda>(s, e, c). c) (group_tokens g)))" for g
    by (cases g rule: span_of_group.cases) (simp add: min_conf_def)
  with t r show ?thesis by simp
qed

lemma demo_tokens:
  "resolve_tokens demo_id2label (Some [[0, ln 18, 0], [0, 0, ln 8], [0, 0, ln 38]])
     (enumerate 0 (zip [(0, 4), (5, 9), (9, 14)] [1, 2, 2]))
   = Inr [(''B-PERSON_NAME'', 0, 4, 9/10), (''I-PERSON_NAME'', 5, 9, 4/5), (''I-PERSON_NAME'', 9, 14, 19/20)]"
  by (simp add: eval_defs)

lemma demo_groups:
  "constituents None [(''B-PERSON_NAME'', 0, 4, 9/10), (''I-PERSON_NAME'', 5, 9, 4/5), (''I-PERSON_NAME'', 9, 14, 19/20)]
   = [(''PERSON_NAME'', (0, 4, 9/10), [(5, 9, 4/5), (9, 14, 19/20)])]"
  by (simp add: group_step_def flush_group_def py_split1_def)

theorem span_confidence_is_minimum_witness:
  "bio_to_spans demo_id2label ''john smithson'' [(0, 4), (5, 9), (9, 14)] [1, 2, 2]
     (Some [[0, ln 18, 0], [0, 0, ln 8], [0, 0, ln 38]]) (Num (1/2))
     = Inr [(Some 0, Some 14, ''PERSON_NAME'', 4/5)]
   \<and> constituents None
        [(''B-PERSON_NAME'', 0, 4, 9/10), (''I-PERSON_NAME'', 5, 9, 4/5), (''I-PERSON_NAME'', 9, 14, 19/20)]
       = [(''PERSON_NAME'', (0, 4, 9/10), [(5, 9, 4/5), (9, 14, 19/20)])]
   \<and> Min (set (map (\<lambda>(s, e, c). c) [(0, 4, 9/10), (5, 9, 4/5), (9, 14, 19/20 :: real)])) = 4/5"
proof -
  have h: "bio_to_spans demo_id2label ''john smithson'' [(0, 4), (5, 9), (9, 14)] [1, 2, 2]
     (Some [[0, ln 18, 0], [0, 0, ln 8], [0, 0, ln 38]]) (Num (1/2))
     = Inr [(Some 0, Some 14, ''PERSON_NAME'', 4/5)]"
    by (simp add: eval_defs)
  show ?thesis
    using h span_confidence_is_minimum [OF h] demo_tokens demo_groups by simp
qed

lemma resolve_tokens_offsets:
  "resolve_tokens id2label logits xs = Inr toks \<Longrightarrow>
   map (\<lambda>(label, s, e, c). (s, e)) toks = filter (\<lambda>p. p \<noteq> (0, 0)) (map (\<lambda>(idx, p, lid). p) xs)"
proof (induction xs arbitrary: toks)
  case Nil
  then show ?case by simp
next
  case (Cons x xs)
  obtain idx s e lid where x: "x = (idx, (s, e), lid)"
    by (cases x) auto
  with Cons show ?case
    by (auto split: if_splits sum.splits)
qed

lemma group_step_tokens:
  assumes "group_step cur (label, t) = (emitted, cur')"
  shows "concat (map group_tokens emitted) @ open_tokens cur'
           = open_tokens cur @ (if entity_label label then [t] else [])"
proof (cases "label = ''O''")
  case True
  with assms show ?thesis
    by (auto simp: group_step_def open_tokens_def entity_label_def flush_group_def)
next
  case False
  show ?thesis
  proof (cases "\<exists>prefix X. py_split1 label = [prefix, X]")
    case True
    then obtain prefix X where sp: "py_split1 label = [prefix, X]" by blast
    show ?thesis
    proof (cases cur)
      case None
      with assms False sp show ?thesis
        by (auto simp: group_step_def open_tokens_def entity_label_def flush_group_def
              split: if_splits)
    next
      case (Some g)
      obtain Y t0 ts where "g = (Y, t0, ts)" by (cases g) auto
      with Some assms False sp show ?thesis
        by (auto simp: group_step_def open_tokens_def entity_label_def flush_group_def
              split: if_splits)
    qed
  next
    case F: False
    then have "py_split1 label = [label]"
      by (simp add: py_split1_def split: if_splits)
    with assms False show ?thesis
      by (auto simp: group_step_def open_tokens_def entity_label_def)
  qed
qed

lemma constituents_tokens:
  "concat (map group_tokens (constituents cur toks))
     = open_tokens cur @ map snd (filter (\<lambda>(label, t). entity_label label) toks)"
proof (induction toks arbitrary: cur)
  case Nil
  then show ?case by (simp add: open_tokens_def)
next
  case (Cons lt toks)
  obtain label t where lt: "lt = (label, t)" by (cases lt) auto
  obtain emitted cur' where g: "group_step cur (label, t) = (emitted, cur')"
    by (cases "group_step cur (label, t)") auto
  have "concat (map group_tokens (constituents cur (lt # toks)))
          = concat (map group_tokens emitted) @ open_tokens cur'
              @ map snd (filter (\<lambda>(label, t). entity_label label) toks)"
    using lt g Cons.IH [of cur'] by simp
  also have "\<dots> = (open_tokens cur @ (if entity_label label then [t] else []))
              @ map snd (filter (\<lambda>(label, t). entity_label label) toks)"
    using group_step_tokens [OF g] by simp
  finally show ?case using lt by simp
qed

lemma group_span_wf:
  assumes "sorted_wrt tok_before (group_tokens g)" and "list_all tok_wf (group_tokens g)"
  shows "span_wf (span_of_group g)"
proof -
  obtain X s e c ts where g: "g = (X, (s, e, c), ts)"
    by (cases g rule: span_of_group.cases) auto
  show ?thesis
  proof (cases "ts = []")
    case True
    with assms g show ?thesis by (simp add: span_wf_def tok_wf_def)
  next
    case False
    then have l: "last ts \<in> set ts" by simp
    obtain s' e' c' where lt: "last ts = (s', e', c')" by (cases "last ts") auto
    from assms g l lt have "e \<le> s'" "s < e" "s' < e'"
      by (auto simp: tok_before_def tok_wf_def list_all_iff)
    with g False lt show ?thesis by (simp add: span_wf_def)
  qed
qed

lemma group_span_precedes:
  assumes "span_wf (span_of_group g)"
      and "\<forall>t \<in> set (group_tokens g). \<forall>t' \<in> set (group_tokens h). tok_before t t'"
  shows "span_precedes (span_of_group g) (span_of_group h)"
proof -
  obtain X s e c ts where g: "g = (X, (s, e, c), ts)"
    by (cases g rule: span_of_group.cases) auto
  obtain Y s' e' c' ts' where h: "h = (Y, (s', e', c'), ts')"
    by (cases h rule: span_of_group.cases) auto
  have "last ((s, e, c) # ts) \<in> set (group_tokens g)"
    using g last_in_set [of "(s, e, c) # ts"] by simp
  moreover have "(s', e', c') \<in> set (group_tokens h)"
    using h by simp
  ultimately have "tok_before (last ((s, e, c) # ts)) (s', e', c')"
    using assms(2) by blast
  then have "fst (snd (last ((s, e, c) # ts))) \<le> s'"
    by (cases "last ((s, e, c) # ts)") (simp add: tok_before_def)
  moreover have "s < fst (snd (last ((s, e, c) # ts)))"
    using assms(1) g by (simp add: span_wf_def)
  ultimately show ?thesis
    using g h by (simp add: span_precedes_def)
qed

lemma groups_ordered:
  assumes "sorted_wrt tok_before (concat (map group_tokens gs))"
      and "list_all tok_wf (concat (map group_tokens gs))"
  shows "list_all span_wf (map span_of_group gs) \<and> sorted_wrt span_precedes (map span_of_group gs)"
  using assms
proof (induction gs)
  case Nil
  then show ?case by simp
next
  case (Cons g gs)
  from Cons.prems have
    1: "sorted_wrt tok_before (group_tokens g)" and
    2: "sorted_wrt tok_before (concat (map group_tokens gs))" and
    3: "\<forall>t \<in> set (group_tokens g). \<forall>t' \<in> set (concat (map group_tokens gs)). tok_before t t'" and
    4: "list_all tok_wf (group_tokens g)" and
    5: "list_all tok_wf (concat (map group_tokens gs))"
    by (simp_all add: sorted_wrt_append)
  have wf: "span_wf (span_of_group g)"
    by (rule group_span_wf [OF 1 4])
  have "span_precedes (span_of_group g) (span_of_group h)" if "h \<in> set gs" for h
  proof (rule group_span_precedes [OF wf])
    show "\<forall>t \<in> set (group_tokens g). \<forall>t' \<in> set (group_tokens h). tok_before t t'"
      using 3 that by auto
  qed
  with wf Cons.IH [OF 2 5] show ?case by simp
qed

lemma enumerate_offsets:
  "map (\<lambda>(idx, p, lid). p) (enumerate n zs) = map fst zs"
  by (induction zs arbitrary: n) auto

lemma zip_offsets_prefix:
  "map (\<lambda>(idx, p, lid). p) (enumerate 0 (zip offsets label_ids)) = take (length label_ids) offsets"
  by (simp add: enumerate_offsets map_fst_zip_take min_def)

text \<open>C1, as the code has it: when the offset pairs other than \<open>(0, 0)\<close> each have
  \<open>start < end\<close> and are in order without overlap (each ends where every later one
  starts, or earlier), every span that \<open>bio_to_spans\<close> returns has \<open>start < end\<close>, and of
  two spans the earlier one starts before the later one and ends where it starts, or
  earlier.\<close>

theorem spans_ordered:
  assumes "bio_to_spans id2label text offsets label_ids logits t = Inr result"
      and "list_all (\<lambda>(s, e). s < e) (filter (\<lambda>p. p \<noteq> (0, 0)) offsets)"
      and "sorted_wrt (\<lambda>(s, e) (s', e'). e \<le> s') (filter (\<lambda>p. p \<noteq> (0, 0)) offsets)"
  shows "list_all span_wf result \<and> sorted_wrt span_precedes result"
proof -
  let ?nm = "filter (\<lambda>p. p \<noteq> (0, 0))"
  from bio_to_spans_groups [OF assms(1)] obtain toks where
    t: "resolve_tokens id2label logits (enumerate 0 (zip offsets label_ids)) = Inr toks" and
    r: "result = map span_of_group (constituents None toks)"
    by blast
  have offs: "map (\<lambda>(label, s, e, c). (s, e)) toks = ?nm (take (length label_ids) offsets)"
    using resolve_tokens_offsets [OF t] by (simp add: zip_offsets_prefix)
  have split: "?nm offsets = ?nm (take (length label_ids) offsets) @ ?nm (drop (length label_ids) offsets)"
    by (metis append_take_drop_id filter_append)
  have a: "list_all (\<lambda>(s, e). s < e) (map (\<lambda>(label, s, e, c). (s, e)) toks)"
    using assms(2) offs split by simp
  have b: "sorted_wrt (\<lambda>(s, e) (s', e'). e \<le> s') (map (\<lambda>(label, s, e, c). (s, e)) toks)"
    using assms(3) offs split by (simp add: sorted_wrt_append)
  let ?ts = "map snd (filter (\<lambda>(label, t). entity_label label) toks)"
  have a': "list_all tok_wf (map snd toks)"
    using a by (auto simp: list_all_iff tok_wf_def)
  have b': "sorted_wrt tok_before (map snd toks)"
    using b by (simp add: sorted_wrt_map tok_before_def case_prod_unfold)
  have "list_all tok_wf ?ts"
    using a' by (auto simp: list_all_iff)
  moreover have "sorted_wrt tok_before ?ts"
    using b' by (simp add: sorted_wrt_map sorted_wrt_filter)
  ultimately show ?thesis
    using groups_ordered [of "constituents None toks"] r
    by (simp add: constituents_tokens open_tokens_def flush_group_def)
qed

theorem spans_ordered_witness:
  "bio_to_spans demo_id2label ''john smith of pune'' [(0, 0), (0, 4), (5, 10), (11, 13), (14, 18), (0, 0)]
     [0, 1, 2, 0, 3, 0] None (Num (1/2))
     = Inr [(Some 0, Some 10, ''PERSON_NAME'', 1), (Some 14, Some 18, ''CITY'', 1)]
   \<and> list_all (\<lambda>(s, e). s < e)
        (filter (\<lambda>p. p \<noteq> (0, 0)) [(0, 0), (0, 4), (5, 10), (11, 13), (14, 18), (0, 0 :: int)])
   \<and> sorted_wrt (\<lambda>(s, e) (s', e'). e \<le> s')
        (filter (\<lambda>p. p \<noteq> (0, 0)) [(0, 0), (0, 4), (5, 10), (11, 13), (14, 18), (0, 0 :: int)])
   \<and> list_all span_wf [(Some 0, Some 10, ''PERSON_NAME'', 1), (Some 14, Some 18, ''CITY'', 1)]
   \<and> sorted_wrt span_precedes [(Some 0, Some 10, ''PERSON_NAME'', 1), (Some 14, Some 18, ''CITY'', 1)]"
proof -
  have h: "bio_to_spans demo_id2label ''john smith of pune''
      [(0, 0), (0, 4), (5, 10), (11, 13), (14, 18), (0, 0)] [0, 1, 2, 0, 3, 0] None (Num (1/2))
     = Inr [(Some 0, Some 10, ''PERSON_NAME'', 1), (Some 14, Some 18, ''CITY'', 1)]"
    by (simp add: eval_defs)
  have a: "list_all (\<lambda>(s, e). s < e)
        (filter (\<lambda>p. p \<noteq> (0, 0)) [(0, 0), (0, 4), (5, 10), (11, 13), (14, 18), (0, 0 :: int)])"
    by simp
  have b: "sorted_wrt (\<lambda>(s, e) (s', e'). e \<le> s')
        (filter (\<lambda>p. p \<noteq> (0, 0)) [(0, 0), (0, 4), (5, 10), (11, 13), (14, 18), (0, 0 :: int)])"
    by simp
  show ?thesis
    using h a b spans_ordered [OF h a b] by simp
qed

text \<open>The claim C1 fails for offsets that are out of order: the first span below has
  \<open>start = end\<close>, and the second one starts before it.\<close>

theorem spans_ordered_counterexample:
  "bio_to_spans demo_id2label ''pune 98'' [(3, 3), (1, 6)] [3, 7] None (Num (1/2))
     = Inr [(Some 3, Some 3, ''CITY'', 1), (Some 1, Some 6, ''PHONE'', 1)]
   \<and> \<not> span_wf (Some 3, Some 3, ''CITY'', 1)
   \<and> \<not> span_precedes (Some 3, Some 3, ''CITY'', 1) (Some 1, Some 6, ''PHONE'', 1)"
  by (simp add: eval_defs span_wf_def span_precedes_def)

lemma span_of_group_some: "\<exists>s e lab conf. span_of_group g = (Some s, Some e, lab, conf)"
  by (cases g rule: span_of_group.cases) simp

lemma decoded_spans_some:
  assumes "bio_to_spans id2label text offsets label_ids logits t = Inr decoded"
      and "sp \<in> set decoded"
  shows "\<exists>s e lab conf. sp = (Some s, Some e, lab, conf)"
  using bio_to_spans_groups [OF assms(1)] assms(2) span_of_group_some by auto

lemma filter_loop_some:
  assumes "\<And>sp. sp \<in> set sps \<Longrightarrow> \<exists>s e lab conf. sp = (Some s, Some e, lab, conf)"
  shows "\<exists>new. filter_loop label_is_pii th sps ents = Inr (ents @ new)
           \<and> map (\<lambda>x. (Some (ent_start x), Some (ent_end x), ent_label x, ent_pii x)) new
               = map (\<lambda>(s, e, lab, conf). (s, e, lab, label_is_pii lab))
                   (filter (\<lambda>(s, e, lab, conf). \<not> (label_is_pii lab \<and> py_lt conf th)) sps)"
  using assms
proof (induction sps arbitrary: ents)
  case Nil
  then show ?case by simp
next
  case (Cons sp sps)
  from Cons.prems [of sp] obtain s e lab conf where sp: "sp = (Some s, Some e, lab, conf)"
    by auto
  have rest: "\<And>sp. sp \<in> set sps \<Longrightarrow> \<exists>s e lab conf. sp = (Some s, Some e, lab, conf)"
    using Cons.prems by simp
  show ?case
  proof (cases "label_is_pii lab \<and> py_lt conf th")
    case True
    with sp Cons.IH [OF rest, of ents] show ?thesis by auto
  next
    case False
    let ?x = "\<lparr>ent_start = s, ent_end = e, ent_label = lab, ent_pii = label_is_pii lab\<rparr>"
    from Cons.IH [OF rest, of "ents @ [?x]"] obtain new where
      n: "filter_loop label_is_pii th sps (ents @ [?x]) = Inr ((ents @ [?x]) @ new)" and
      m: "map (\<lambda>x. (Some (ent_start x), Some (ent_end x), ent_label x, ent_pii x)) new
               = map (\<lambda>(s, e, lab, conf). (s, e, lab, label_is_pii lab))
                   (filter (\<lambda>(s, e, lab, conf). \<not> (label_is_pii lab \<and> py_lt conf th)) sps)"
      by blast
    have "filter_loop label_is_pii th (sp # sps) ents = Inr (ents @ (?x # new))"
      using sp False n by (auto simp: py_int_def)
    moreover have "map (\<lambda>x. (Some (ent_start x), Some (ent_end x), ent_label x, ent_pii x)) (?x # new)
               = map (\<lambda>(s, e, lab, conf). (s, e, lab, label_is_pii lab))
                   (filter (\<lambda>(s, e, lab, conf). \<not> (label_is_pii lab \<and> py_lt conf th)) (sp # sps))"
      using sp False m by auto
    ultimately show ?thesis by blast
  qed
qed

text \<open>C4: for a span list that \<open>bio_to_spans\<close> returned and every threshold \<open>t\<close> that is a
  number, the filter of \<open>main\<close> returns, in the original order, exactly the spans whose
  entity type is not PII or whose confidence is at least \<open>t\<close>, each with its start, its
  end, its label and the PII flag of its label.\<close>

theorem filter_keeps_exactly:
  assumes "bio_to_spans id2label text offsets label_ids logits t0 = Inr decoded"
  shows "\<exists>ents. filter_loop label_is_pii (Num t) decoded [] = Inr ents
           \<and> map (\<lambda>x. (Some (ent_start x), Some (ent_end x), ent_label x, ent_pii x)) ents
               = map (\<lambda>(s, e, lab, conf). (s, e, lab, label_is_pii lab))
                   (filter (\<lambda>(s, e, lab, conf). \<not> label_is_pii lab \<or> t \<le> conf) decoded)"
proof -
  have "(\<lambda>(s :: int option, e :: int option, lab, conf). \<not> (label_is_pii lab \<and> py_lt conf (Num t)))
          = (\<lambda>(s, e, lab, conf). \<not> label_is_pii lab \<or> t \<le> conf)"
    by (auto simp: fun_eq_iff)
  with filter_loop_some [of decoded label_is_pii "Num t" "[]"] decoded_spans_some [OF assms]
  show ?thesis by simp
qed

theorem filter_keeps_exactly_witness:
  "bio_to_spans demo_id2label ''john in pune'' [(0, 4), (5, 7), (8, 12)] [1, 0, 3]
     (Some [[ln 7, ln 3], [0], [ln 3, ln 3, ln 3, 0]]) (Num (1/2))
     = Inr [(Some 0, Some 4, ''PERSON_NAME'', 3/10), (Some 8, Some 12, ''CITY'', 1/10)]
   \<and> filter_loop demo_is_pii (Num (1/2))
        [(Some 0, Some 4, ''PERSON_NAME'', 3/10), (Some 8, Some 12, ''CITY'', 1/10)] []
       = Inr [\<lparr>ent_start = 8, ent_end = 12, ent_label = ''CITY'', ent_pii = False\<rparr>]"
proof -
  have h: "bio_to_spans demo_id2label ''john in pune'' [(0, 4), (5, 7), (8, 12)] [1, 0, 3]
     (Some [[ln 7, ln 3], [0], [ln 3, ln 3, ln 3, 0]]) (Num (1/2))
     = Inr [(Some 0, Some 4, ''PERSON_NAME'', 3/10), (Some 8, Some 12, ''CITY'', 1/10)]"
    by (simp add: eval_defs)
  show ?thesis
    using h filter_keeps_exactly [OF h, of demo_is_pii "1/2"]
    by (simp add: demo_is_pii_def py_int_def)
qed

text \<open>C3, as the code has it: no threshold is rejected or clamped. For every float that
  is given as the threshold (a number in \<open>[0, 1]\<close> or not, an infinity, NaN), the
  entities of an utterance are computed whenever the decoder returns, and they are the
  spans that are not PII or for which the test \<open>conf < threshold\<close> of line 116 is false:
  for a number \<open>t\<close> the spans with a confidence of at least \<open>t\<close>, for \<open>inf\<close> no PII span,
  for \<open>-inf\<close> and for NaN every span.\<close>

theorem threshold_not_validated:
  assumes "bio_to_spans id2label text offsets pred_ids (Some logits) th = Inr decoded"
  shows "\<exists>ents. predict_ents id2label label_is_pii text offsets pred_ids logits th = Inr ents
           \<and> map (\<lambda>x. (Some (ent_start x), Some (ent_end x), ent_label x, ent_pii x)) ents
               = map (\<lambda>(s, e, lab, conf). (s, e, lab, label_is_pii lab))
                   (filter (\<lambda>(s, e, lab, conf). \<not> label_is_pii lab \<or>
                      (case th of Num t \<Rightarrow> t \<le> conf | PosInf \<Rightarrow> False
                       | NegInf \<Rightarrow> True | NaN \<Rightarrow> True)) decoded)"
proof -
  have "(\<lambda>(s :: int option, e :: int option, lab, conf). \<not> (label_is_pii lab \<and> py_lt conf th))
          = (\<lambda>(s, e, lab, conf). \<not> label_is_pii lab \<or>
               (case th of Num t \<Rightarrow> t \<le> conf | PosInf \<Rightarrow> False | NegInf \<Rightarrow> True | NaN \<Rightarrow> True))"
    by (cases th) (auto simp: fun_eq_iff)
  with filter_loop_some [of decoded label_is_pii th "[]"] decoded_spans_some [OF assms] assms
  show ?thesis by (simp add: predict_ents_def)
qed

theorem threshold_not_validated_witness:
  "bio_to_spans demo_id2label ''john in pune'' [(0, 4), (5, 7), (8, 12)] [1, 0, 3]
     (Some [[0, ln 9], [0], [ln 3, ln 3, ln 3, 0]]) (Num (3/2))
     = Inr [(Some 0, Some 4, ''PERSON_NAME'', 9/10), (Some 8, Some 12, ''CITY'', 1/10)]
   \<and> predict_ents demo_id2label demo_is_pii ''john in pune'' [(0, 4), (5, 7), (8, 12)] [1, 0, 3]
        [[0, ln 9], [0], [ln 3, ln 3, ln 3, 0]] (Num (3/2))
       = Inr [\<lparr>ent_start = 8, ent_end = 12, ent_label = ''CITY'', ent_pii = False\<rparr>]
   \<and> bio_to_spans demo_id2label ''john in pune'' [(0, 4), (5, 7), (8, 12)] [1, 0, 3]
        (Some [[0, ln 9], [0], [ln 3, ln 3, ln 3, 0]]) NaN
       = Inr [(Some 0, Some 4, ''PERSON_NAME'', 9/10), (Some 8, Some 12, ''CITY'', 1/10)]
   \<and> predict_ents demo_id2label demo_is_pii ''john in pune'' [(0, 4), (5, 7), (8, 12)] [1, 0, 3]
        [[0, ln 9], [0], [ln 3, ln 3, ln 3, 0]] NaN
       = Inr [\<lparr>ent_start = 0, ent_end = 4, ent_label = ''PERSON_NAME'', ent_pii = True\<rparr>,
              \<lparr>ent_start = 8, ent_end = 12, ent_label = ''CITY'', ent_pii = False\<rparr>]"
proof -
  have h: "bio_to_spans demo_id2label ''john in pune'' [(0, 4), (5, 7), (8, 12)] [1, 0, 3]
     (Some [[0, ln 9], [0], [ln 3, ln 3, ln 3, 0]]) th
     = Inr [(Some 0, Some 4, ''PERSON_NAME'', 9/10), (Some 8, Some 12, ''CITY'', 1/10)]" for th
    by (simp add: eval_defs)
  show ?thesis
    using h threshold_not_validated [OF h [of "Num (3/2)"], of demo_is_pii]
      threshold_not_validated [OF h [of NaN], of demo_is_pii]
    by (simp add: predict_ents_def demo_is_pii_def py_int_def)
qed

text \<open>The claim C3 fails on the code: the thresholds \<open>3/2\<close>, \<open>-1\<close> and NaN are accepted,
  and with NaN every span is kept.\<close>

theorem threshold_rejected_counterexample:
  "predict_ents demo_id2label demo_is_pii ''john in pune'' [(0, 4), (5, 7), (8, 12)] [1, 0, 3]
     [[ln 7, ln 3], [0], [ln 3, ln 3, ln 3, 0]] (Num (3/2))
     = Inr [\<lparr>ent_start = 8, ent_end = 12, ent_label = ''CITY'', ent_pii = False\<rparr>]
   \<and> predict_ents demo_id2label demo_is_pii ''john in pune'' [(0, 4), (5, 7), (8, 12)] [1, 0, 3]
        [[ln 7, ln 3], [0], [ln 3, ln 3, ln 3, 0]] (Num (- 1))
       = Inr [\<lparr>ent_start = 0, ent_end = 4, ent_label = ''PERSON_NAME'', ent_pii = True\<rparr>,
              \<lparr>ent_start = 8, ent_end = 12, ent_label = ''CITY'', ent_pii = False\<rparr>]
   \<and> predict_ents demo_id2label demo_is_pii ''john in pune'' [(0, 4), (5, 7), (8, 12)] [1, 0, 3]
        [[ln 7, ln 3], [0], [ln 3, ln 3, ln 3, 0]] NaN
       = Inr [\<lparr>ent_start = 0, ent_end = 4, ent_label = ''PERSON_NAME'', ent_pii = True\<rparr>,
              \<lparr>ent_start = 8, ent_end = 12, ent_label = ''CITY'', ent_pii = False\<rparr>]"
  by (simp add: eval_defs predict_ents_def demo_is_pii_def py_int_def)

lemma transition_error: "transition label s e c st = Inl err \<Longrightarrow> err = ValueError"
  by (auto simp: transition_def split: if_splits list.splits)

lemma token_confidence_in_range:
  assumes "idx < length rows"
      and "- int (length (rows ! idx)) \<le> lid" and "lid < int (length (rows ! idx))"
  shows "\<exists>c. token_confidence (Some rows) idx lid = Inr c"
  using assms by (simp add: token_confidence_def row_at_def item_at_def softmax_def Let_def)

lemma run_loop_IndexError:
  "run_loop id2label logits xs st = Inl IndexError \<Longrightarrow>
   \<exists>idx p lid. (idx, p, lid) \<in> set xs \<and> token_confidence logits idx lid = Inl IndexError"
proof (induction xs arbitrary: st)
  case Nil
  then show ?case by simp
next
  case (Cons x xs)
  obtain idx s e lid where x: "x = (idx, (s, e), lid)"
    by (cases x) auto
  show ?case
  proof (cases "loop_body id2label logits x st")
    case (Inl err)
    with Cons.prems have "err = IndexError" by simp
    with Inl x have "token_confidence logits idx lid = Inl IndexError"
      by (auto simp: loop_body_def split: if_splits sum.splits dest: transition_error)
    with x show ?thesis by auto
  next
    case (Inr st')
    with Cons.prems have "run_loop id2label logits xs st' = Inl IndexError" by simp
    from Cons.IH [OF this] show ?thesis by auto
  qed
qed

lemma bio_to_spans_IndexError:
  assumes "bio_to_spans id2label text offsets label_ids logits t = Inl IndexError"
  shows "\<exists>i < min (length offsets) (length label_ids).
           token_confidence logits i (label_ids ! i) = Inl IndexError"
proof -
  from assms have "run_loop id2label logits (enumerate 0 (zip offsets label_ids)) init_state
                     = Inl IndexError"
    by (simp add: bio_to_spans_def split: sum.splits)
  from run_loop_IndexError [OF this] obtain idx p lid where
    m: "(idx, p, lid) \<in> set (enumerate 0 (zip offsets label_ids))" and
    c: "token_confidence logits idx lid = Inl IndexError"
    by blast
  from m have "idx < min (length offsets) (length label_ids)" "label_ids ! idx = lid"
    by (auto simp: in_set_enumerate_eq)
  with c show ?thesis by auto
qed

lemma zip_truncated:
  "zip (take (min (length xs) (length ys)) xs) (take (min (length xs) (length ys)) ys) = zip xs ys"
  by (simp add: take_zip [symmetric])

text \<open>C8, as the code has it: \<open>bio_to_spans\<close> reads the offsets and the label ids up to
  the length of the shorter list only. It raises no \<open>IndexError\<close> when no scores are
  given, nor when the scores have a row for each of these positions and each label id
  there is an index of its row.\<close>

theorem truncation_and_bounds:
  "bio_to_spans id2label text offsets label_ids logits t
     = bio_to_spans id2label text
         (take (min (length offsets) (length label_ids)) offsets)
         (take (min (length offsets) (length label_ids)) label_ids) logits t
   \<and> bio_to_spans id2label text offsets label_ids None t \<noteq> Inl IndexError
   \<and> (min (length offsets) (length label_ids) \<le> length rows
        \<and> (\<forall>i < min (length offsets) (length label_ids).
              - int (length (rows ! i)) \<le> label_ids ! i \<and> label_ids ! i < int (length (rows ! i)))
      \<longrightarrow> bio_to_spans id2label text offsets label_ids (Some rows) t \<noteq> Inl IndexError)"
proof (intro conjI impI)
  show "bio_to_spans id2label text offsets label_ids logits t
     = bio_to_spans id2label text
         (take (min (length offsets) (length label_ids)) offsets)
         (take (min (length offsets) (length label_ids)) label_ids) logits t"
    by (simp only: bio_to_spans_def zip_truncated)
  show "bio_to_spans id2label text offsets label_ids None t \<noteq> Inl IndexError"
  proof
    assume "bio_to_spans id2label text offsets label_ids None t = Inl IndexError"
    from bio_to_spans_IndexError [OF this] show False
      by (simp add: token_confidence_def)
  qed
  assume a: "min (length offsets) (length label_ids) \<le> length rows
        \<and> (\<forall>i < min (length offsets) (length label_ids).
              - int (length (rows ! i)) \<le> label_ids ! i \<and> label_ids ! i < int (length (rows ! i)))"
  show "bio_to_spans id2label text offsets label_ids (Some rows) t \<noteq> Inl IndexError"
  proof
    assume "bio_to_spans id2label text offsets label_ids (Some rows) t = Inl IndexError"
    from bio_to_spans_IndexError [OF this] obtain i where
      i: "i < min (length offsets) (length label_ids)" and
      c: "token_confidence (Some rows) i (label_ids ! i) = Inl IndexError"
      by blast
    from a i have "i < length rows" "- int (length (rows ! i)) \<le> label_ids ! i"
      "label_ids ! i < int (length (rows ! i))"
      by auto
    from token_confidence_in_range [OF this] c show False by auto
  qed
qed

theorem truncation_and_bounds_witness:
  "bio_to_spans demo_id2label ''pune'' [(0, 4), (5, 6)] [3] (Some [[0, 0, 0, ln 7]]) (Num (1/2))
     = bio_to_spans demo_id2label ''pune'' [(0, 4)] [3] (Some [[0, 0, 0, ln 7]]) (Num (1/2))
   \<and> bio_to_spans demo_id2label ''pune'' [(0, 4), (5, 6)] [3] None (Num (1/2)) \<noteq> Inl IndexError
   \<and> min (length [(0, 4), (5, 6 :: int)]) (length [3 :: int]) \<le> length [[0, 0, 0, ln 7 :: real]]
   \<and> bio_to_spans demo_id2label ''pune'' [(0, 4), (5, 6)] [3] (Some [[0, 0, 0, ln 7]]) (Num (1/2))
       = Inr [(Some 0, Some 4, ''CITY'', 7/10)]"
  using truncation_and_bounds [of demo_id2label "''pune''" "[(0, 4), (5, 6)]" "[3]"
          "Some [[0, 0, 0, ln 7]]" "Num (1/2)" "[[0, 0, 0, ln 7]]"]
  by (simp add: eval_defs)

text \<open>The claim C8 fails for a score array that is too short, or whose row is too short
  for the label id: the index is out of bounds and \<open>IndexError\<close> is raised.\<close>

theorem score_array_counterexample:
  "bio_to_spans demo_id2label ''pune'' [(0, 4)] [3] (Some []) (Num (1/2)) = Inl IndexError
   \<and> bio_to_spans demo_id2label ''pune'' [(0, 4)] [3] (Some [[0, 0]]) (Num (1/2)) = Inl IndexError"
  by (simp add: eval_defs)

end
